theory Spec2Isabelle
  imports Main "HOL-Library.AList" "HOL-Library.Multiset"
begin

section \<open>Strings, numbers and the clock\<close>

text \<open>
  A JavaScript string is a sequence of UTF-16 code units; \<open>length\<close>, \<open>substring\<close> and
  \<open>===\<close> work on code units. The repository's fixed texts are Chinese, so a string is
  modelled as the list of its code units (natural numbers below 65536), and \<open>ascii\<close>
  embeds an ASCII literal.
\<close>

type_synonym jsstring = "nat list"

definition ascii :: "string \<Rightarrow> jsstring" where
  "ascii s = map of_char s"

text \<open>Template literals render a number in decimal: \<^verbatim>\<open>`${Date.now()}`\<close>.\<close>

fun show_nat :: "nat \<Rightarrow> jsstring" where
  "show_nat n = (if n < 10 then [48 + n] else show_nat (n div 10) @ [48 + n mod 10])"

declare show_nat.simps [simp del]

definition show_int :: "int \<Rightarrow> jsstring" where
  "show_int i = (if i < 0 then 45 # show_nat (nat (- i)) else show_nat (nat i))"

text \<open>\<^verbatim>\<open>s.substring(a, b)\<close> with \<open>0 \<le> a \<le> b\<close>, and \<^verbatim>\<open>s.substring(a)\<close>.\<close>

definition substring :: "jsstring \<Rightarrow> nat \<Rightarrow> nat \<Rightarrow> jsstring" where
  "substring s a b = take (b - a) (drop a s)"


text \<open>\<^verbatim>\<open>String.prototype.trim\<close> removes white space and line terminators at both ends.\<close>

definition is_white_space :: "nat \<Rightarrow> bool" where
  "is_white_space u =
     (u \<in> {9, 10, 11, 12, 13, 32, 160, 5760, 8232, 8233, 8239, 8287, 12288, 65279}
      \<or> (8192 \<le> u \<and> u \<le> 8202))"

definition trim :: "jsstring \<Rightarrow> jsstring" where
  "trim s = rev (dropWhile is_white_space (rev (dropWhile is_white_space s)))"

section \<open>Data model (types.ts)\<close>

record message =
  msg_id :: jsstring
  content :: jsstring
  isUser :: bool
  timestamp :: int
  loading :: "bool option"

datatype status = Success | Failure

text \<open>
  \<open>ChatResponse.metadata\<close> is a \<open>Record<string, any>\<close>; both object literals that
  build it hold string values, one of which (\<open>session_id\<close>) may be \<open>undefined\<close>.
\<close>

record chat_response =
  reply :: jsstring
  status :: status
  metadata :: "(string \<times> jsstring option) list"


text \<open>
  A value caught by \<open>catch (error)\<close>: an \<open>Error\<close> object with its message, or any
  other value with its \<open>String(error)\<close> rendering.
\<close>

datatype thrown = Error jsstring | Thrown jsstring

definition error_message_of :: "thrown \<Rightarrow> jsstring" where
  "error_message_of e = (case e of Error m \<Rightarrow> m | Thrown s \<Rightarrow> s)"

text \<open>
  Calling \<open>push\<close> on \<open>undefined\<close>, or reading a property of it, raises a TypeError; the
  message is the engine's (V8's wording is used, with the property name inserted).
\<close>

definition TypeError_undefined :: "string \<Rightarrow> thrown" where
  "TypeError_undefined p =
     Error (ascii ''Cannot read properties of undefined (reading '' @ [39] @ ascii p @ [39] @ ascii '')'')"

section \<open>The module state\<close>

text \<open>
  The api module and demo.tsx each keep two module-level objects,
  \<open>mockConversations\<close> and \<open>sessionIdMap\<close>, used as dictionaries from conversation keys.
  They are association lists in insertion order: assignment to an existing key keeps its
  place, assignment to a new key appends (\<open>AList.update\<close>), \<open>delete\<close> removes
  (\<open>AList.delete\<close>). Only own properties are modelled: a key that names a property
  inherited from \<open>Object.prototype\<close> (such as \<open>constructor\<close>) is outside the model.

  \<open>Date.now()\<close> reads the wall clock. The clock is a sequence of readings, one per call,
  so that two calls may or may not fall into the same millisecond; \<open>ticks\<close> counts the
  readings taken so far.
\<close>

record world =
  mockConversations :: "(jsstring \<times> message list) list"
  sessionIdMap :: "(jsstring \<times> jsstring) list"
  clock :: "nat \<Rightarrow> int"
  ticks :: nat

definition Date_now :: "world \<Rightarrow> int \<times> world" where
  "Date_now w = (clock w (ticks w), w\<lparr>ticks := Suc (ticks w)\<rparr>)"

text \<open>\<^verbatim>\<open>mockConversations[conversationId].push(m)\<close>: a TypeError when the key is absent.\<close>

definition push :: "jsstring \<Rightarrow> message \<Rightarrow> world \<Rightarrow> thrown + world" where
  "push conversationId m w =
     (case map_of (mockConversations w) conversationId of
        None \<Rightarrow> Inl (TypeError_undefined ''push'')
      | Some ms \<Rightarrow>
          Inr (w\<lparr>mockConversations := AList.update conversationId (ms @ [m]) (mockConversations w)\<rparr>))"

text \<open>
  \<^verbatim>\<open>if (!mockConversations[conversationId]) mockConversations[conversationId] = [];\<close>
  (an array is truthy, so the test is for an absent key).
\<close>

definition ensure_conversation :: "jsstring \<Rightarrow> world \<Rightarrow> world" where
  "ensure_conversation conversationId w =
     (case map_of (mockConversations w) conversationId of
        None \<Rightarrow> w\<lparr>mockConversations := AList.update conversationId [] (mockConversations w)\<rparr>
      | Some ms \<Rightarrow> w)"

text \<open>
  The session lookup shared by both senders. \<open>!sessionId\<close> holds for a missing binding
  and for the empty string. \<open>rnd\<close> is the value of
  \<^verbatim>\<open>Math.floor(Math.random() * 1000000)\<close>.
\<close>

definition resolve_session :: "jsstring \<Rightarrow> nat \<Rightarrow> world \<Rightarrow> jsstring \<times> world" where
  "resolve_session conversationId rnd w =
     (let create =
        (let (t, w1) = Date_now w;
             sessionId = ascii ''session-'' @ show_int t @ ascii ''-'' @ show_nat rnd
         in (sessionId, w1\<lparr>sessionIdMap := AList.update conversationId sessionId (sessionIdMap w1)\<rparr>))
      in case map_of (sessionIdMap w) conversationId of
           None \<Rightarrow> create
         | Some s \<Rightarrow> if s = [] then create else (s, w))"

section \<open>The network\<close>

text \<open>
  The request handed to \<open>fetch\<close>: URL, the headers that vary, and the fields of the
  JSON body in the order of the object literal.
\<close>

record request =
  url :: jsstring
  authorization :: "jsstring option"
  trace_id :: jsstring
  body :: "(string \<times> jsstring) list"

text \<open>
  The decoded body of a 2xx response is taken at its declared shape: a \<open>reply\<close> string
  and an optional \<open>session_id\<close> string. A body of another shape is outside the model.
\<close>

record chat_data =
  data_reply :: jsstring
  data_session_id :: "jsstring option"

datatype json_outcome = Json_rejected thrown | Json_data chat_data

text \<open>
  What the awaited \<open>fetch\<close> and \<open>response.json()\<close> deliver: a rejection (network
  failure, timeout), or a response with its status and the outcome of decoding its body.
\<close>

datatype fetch_outcome = Fetch_rejected thrown | Response nat json_outcome

definition response_ok :: "nat \<Rightarrow> bool" where
  "response_ok st = (200 \<le> st \<and> st \<le> 299)"

definition api_error_prefix :: jsstring where
  "api_error_prefix = [65, 80, 73, 38169, 35823, 58, 32]"

definition fallbackReply :: jsstring where
  "fallbackReply =
     [25265, 27465, 65292, 25105, 26242, 26102, 26080, 27861, 36830, 25509, 21040, 26381, 21153,
      22120, 12290, 35831, 31245, 21518, 20877, 35797, 25110, 26816, 26597, 24744, 30340, 32593,
      32476, 36830, 25509, 12290]"

section \<open>Sending a message\<close>

text \<open>
  The \<open>try\<close> block after the awaits, the same text in \<open>sendMessage\<close> and in
  \<open>apiSendMessage\<close>: reject a non-2xx status, decode the body, rotate the session binding
  when the response names another session, record the reply.
\<close>

definition try_receive ::
  "jsstring \<Rightarrow> jsstring \<Rightarrow> fetch_outcome \<Rightarrow> world \<Rightarrow> (thrown + chat_response) \<times> world" where
  "try_receive conversationId sessionId outcome w =
     (case outcome of
        Fetch_rejected e \<Rightarrow> (Inl e, w)
      | Response st js \<Rightarrow>
          if \<not> response_ok st then (Inl (Error (api_error_prefix @ show_nat st)), w)
          else
            (case js of
               Json_rejected e \<Rightarrow> (Inl e, w)
             | Json_data d \<Rightarrow>
                 (let w1 =
                    (case data_session_id d of
                       None \<Rightarrow> w
                     | Some s \<Rightarrow>
                         if s \<noteq> [] \<and> s \<noteq> sessionId
                         then w\<lparr>sessionIdMap := AList.update conversationId s (sessionIdMap w)\<rparr>
                         else w);
                      (t1, w2) = Date_now w1;
                      (t2, w3) = Date_now w2;
                      systemMessage =
                        \<lparr>msg_id = ascii ''system-'' @ show_int t1, content = data_reply d,
                         isUser = False, timestamp = t2, loading = None\<rparr>
                  in case push conversationId systemMessage w3 of
                       Inl e \<Rightarrow> (Inl e, w3)
                     | Inr w4 \<Rightarrow>
                         (Inr \<lparr>reply = data_reply d, status = Success,
                               metadata =
                                 [(''conversation_id'', Some conversationId),
                                  (''session_id'', data_session_id d),
                                  (''message_id'', Some (msg_id systemMessage))]\<rparr>,
                          w4))))"

text \<open>The \<open>catch\<close> block, again the same text in both senders.\<close>

definition catch_error ::
  "jsstring \<Rightarrow> thrown \<Rightarrow> world \<Rightarrow> (thrown + chat_response) \<times> world" where
  "catch_error conversationId e w =
     (let (t1, w1) = Date_now w;
          (t2, w2) = Date_now w1;
          errorMessage =
            \<lparr>msg_id = ascii ''system-error-'' @ show_int t1, content = fallbackReply,
             isUser = False, timestamp = t2, loading = None\<rparr>
      in case push conversationId errorMessage w2 of
           Inl e' \<Rightarrow> (Inl e', w2)
         | Inr w3 \<Rightarrow>
             (Inr \<lparr>reply = fallbackReply, status = Failure,
                   metadata =
                     [(''error_code'', Some (ascii ''API_CONNECTION_ERROR'')),
                      (''conversation_id'', Some conversationId),
                      (''error_message'', Some (error_message_of e))]\<rparr>,
              w3))"

subsection \<open>The api module: \<open>sendMessage\<close>\<close>

definition API_URL :: jsstring where
  "API_URL = ascii ''http://localhost:8000/nativeai/agents/ship/chat''"

definition API_TOKEN :: jsstring where
  "API_TOKEN = ascii ''app-3MjlCFdfgK9Cw5eIlEjAdFyv''"

text \<open>
  The \<open>try\<close> block up to the call of \<open>fetch\<close>: it runs without interruption, then the
  function is suspended until the network answers.
\<close>

definition sendMessage_try_send ::
  "jsstring \<Rightarrow> jsstring \<Rightarrow> nat \<Rightarrow> world \<Rightarrow> (thrown + request) \<times> world" where
  "sendMessage_try_send message conversationId rnd w =
     (let w1 = ensure_conversation conversationId w;
          (t1, w2) = Date_now w1;
          (t2, w3) = Date_now w2;
          userMessage =
            \<lparr>msg_id = ascii ''user-'' @ show_int t1, content = message,
             isUser = True, timestamp = t2, loading = None\<rparr>
      in case push conversationId userMessage w3 of
           Inl e \<Rightarrow> (Inl e, w3)
         | Inr w4 \<Rightarrow>
             (let (sessionId, w5) = resolve_session conversationId rnd w4;
                  (t3, w6) = Date_now w5
              in (Inr \<lparr>url = API_URL,
                       authorization = Some (ascii ''Bearer '' @ API_TOKEN),
                       trace_id = ascii ''trace-'' @ show_int t3,
                       body = [(''content'', message), (''session_id'', sessionId),
                               (''user_id'', ascii ''huyida-test'')]\<rparr>,
                  w6)))"

text \<open>The session identifier the suspended call remembers is the one it sent.\<close>

definition sent_session :: "request \<Rightarrow> jsstring" where
  "sent_session req = (case map_of (body req) ''session_id'' of None \<Rightarrow> [] | Some s \<Rightarrow> s)"

text \<open>The rest of the call once the network has answered: the \<open>try\<close> block, then \<open>catch\<close>.\<close>

definition resume ::
  "jsstring \<Rightarrow> jsstring \<Rightarrow> fetch_outcome \<Rightarrow> world \<Rightarrow> (thrown + chat_response) \<times> world" where
  "resume conversationId sessionId outcome w =
     (case try_receive conversationId sessionId outcome w of
        (Inl e, w1) \<Rightarrow> catch_error conversationId e w1
      | (Inr r, w1) \<Rightarrow> (Inr r, w1))"


text \<open>A call without the second argument uses the default parameter \<open>'1'\<close>.\<close>

definition default_conversationId :: jsstring where
  "default_conversationId = ascii ''1''"

subsection \<open>The api module: history, new conversations, the list, deletion\<close>

text \<open>\<^verbatim>\<open>return mockConversations[conversationId] || [];\<close>\<close>

definition getConversationHistory :: "jsstring \<Rightarrow> world \<Rightarrow> message list" where
  "getConversationHistory conversationId w =
     (case map_of (mockConversations w) conversationId of None \<Rightarrow> [] | Some ms \<Rightarrow> ms)"

definition greeting_initial :: jsstring where
  "greeting_initial =
     [20320, 22909, 65281, 25105, 26159, 78, 97, 116, 105, 118, 101, 32, 65, 73, 44, 32, 35831,
      38382, 26377, 20160, 20040, 25105, 21487, 20197, 24110, 21161, 24744, 30340, 65311]"

definition greeting_new :: jsstring where
  "greeting_new =
     [24744, 22909, 65281, 25105, 26159, 78, 97, 116, 105, 118, 101, 32, 65, 73, 44, 32, 35831,
      38382, 26377, 20160, 20040, 25105, 21487, 20197, 24110, 21161, 24744, 30340, 65311]"

text \<open>The state after the module has been loaded, with the clock \<open>clk\<close>.\<close>

definition initial_world :: "(nat \<Rightarrow> int) \<Rightarrow> world" where
  "initial_world clk =
     (let (t, w) = Date_now \<lparr>mockConversations = [], sessionIdMap = [], clock = clk, ticks = 0\<rparr>
      in w\<lparr>mockConversations :=
             [(ascii ''1'',
               [\<lparr>msg_id = ascii ''system-init-1'', content = greeting_initial,
                 isUser = False, timestamp = t - 3600000, loading = None\<rparr>])]\<rparr>)"

definition createNewConversation :: "world \<Rightarrow> jsstring \<times> world" where
  "createNewConversation w =
     (let (t1, w1) = Date_now w;
          newId = show_int t1;
          (t2, w2) = Date_now w1
      in (newId,
          w2\<lparr>mockConversations :=
               AList.update newId
                 [\<lparr>msg_id = ascii ''system-init-'' @ newId, content = greeting_new,
                   isUser = False, timestamp = t2, loading = None\<rparr>]
                 (mockConversations w2)\<rparr>))"








definition deleteConversation :: "jsstring \<Rightarrow> world \<Rightarrow> bool \<times> world" where
  "deleteConversation conversationId w =
     (case map_of (mockConversations w) conversationId of
        None \<Rightarrow> (False, w)
      | Some ms \<Rightarrow>
          (True, w\<lparr>mockConversations := AList.delete conversationId (mockConversations w)\<rparr>))"

text \<open>
  The states of the api module's store: the loaded module, then any sequence of the
  exported operations. A call of \<open>sendMessage\<close> contributes two steps, up to the
  \<open>fetch\<close> and after it, and other operations may run in between. The step after the
  \<open>fetch\<close> is allowed with any conversation key and session identifier. The store is
  private to the module; a caller that modifies the array it got from
  \<open>getConversationHistory\<close> is not a step.
\<close>

inductive reachable :: "world \<Rightarrow> bool" where
  loaded: "reachable (initial_world clk)"
| send: "reachable w \<Longrightarrow> sendMessage_try_send message conversationId rnd w = (Inr req, w') \<Longrightarrow> reachable w'"
| answer: "reachable w \<Longrightarrow> resume conversationId sessionId outcome w = (r, w') \<Longrightarrow> reachable w'"
| create: "reachable w \<Longrightarrow> createNewConversation w = (newId, w') \<Longrightarrow> reachable w'"
| delete: "reachable w \<Longrightarrow> deleteConversation conversationId w = (b, w') \<Longrightarrow> reachable w'"

section \<open>demo.tsx\<close>

subsection \<open>\<open>apiSendMessage\<close>\<close>

definition demo_API_URL :: jsstring where
  "demo_API_URL = ascii ''http://localhost:8000/nativeai/llm/question''"

text \<open>
  The callback of \<open>some\<close> reads the clock only for a user message with the same content,
  and \<open>some\<close> stops at the first hit.
\<close>

fun some_duplicate :: "jsstring \<Rightarrow> message list \<Rightarrow> world \<Rightarrow> bool \<times> world" where
  "some_duplicate message [] w = (False, w)"
| "some_duplicate message (msg # msgs) w =
     (if isUser msg \<and> content msg = message
      then (if fst (Date_now w) - timestamp msg < 5000 then (True, snd (Date_now w))
            else some_duplicate message msgs (snd (Date_now w)))
      else some_duplicate message msgs w)"

definition apiSendMessage_try_send ::
  "jsstring \<Rightarrow> jsstring \<Rightarrow> nat \<Rightarrow> world \<Rightarrow> (thrown + request) \<times> world" where
  "apiSendMessage_try_send message conversationId rnd w =
     (let w1 = ensure_conversation conversationId w;
          (t1, w2) = Date_now w1;
          (t2, w3) = Date_now w2;
          userMessage =
            \<lparr>msg_id = ascii ''user-'' @ show_int t1, content = message,
             isUser = True, timestamp = t2, loading = None\<rparr>
      in case map_of (mockConversations w3) conversationId of
           None \<Rightarrow> (Inl (TypeError_undefined ''some''), w3)
         | Some stored \<Rightarrow>
             (let (hasDuplicateMessage, w4) = some_duplicate message stored w3
              in case (if \<not> hasDuplicateMessage then push conversationId userMessage w4 else Inr w4) of
                   Inl e \<Rightarrow> (Inl e, w4)
                 | Inr w5 \<Rightarrow>
                     (let (sessionId, w6) = resolve_session conversationId rnd w5;
                          (t3, w7) = Date_now w6
                      in (Inr \<lparr>url = demo_API_URL, authorization = None,
                               trace_id = ascii ''trace-'' @ show_int t3,
                               body = [(''question'', message), (''session_id'', sessionId),
                                       (''user_id'', ascii ''huyida-test'')]\<rparr>,
                          w7))))"


subsection \<open>Titles and the rendered list\<close>

definition getTitleFromMessages :: "message list \<Rightarrow> jsstring \<Rightarrow> jsstring" where
  "getTitleFromMessages messages cid =
     (case filter isUser messages of
        u # us \<Rightarrow>
          if length (content u) > 20 then substring (content u) 0 20 @ ascii ''...''
          else content u
      | [] \<Rightarrow> ascii ''Native AI '' @ cid)"







subsection \<open>The module store of demo.tsx\<close>

definition demo_greeting_initial :: jsstring where
  "demo_greeting_initial =
     [20320, 22909, 65281, 25105, 26159, 78, 97, 116, 105, 118, 101, 65292, 26377, 20160, 20040,
      25105, 21487, 20197, 24110, 21040, 24744, 30340, 65311]"


text \<open>\<open>DEFAULT_CONVERSATION_ID\<close> and \<open>newId\<close> come from \<open>uuidv4()\<close>; they are parameters.\<close>

definition demo_initial_world :: "jsstring \<Rightarrow> (nat \<Rightarrow> int) \<Rightarrow> world" where
  "demo_initial_world DEFAULT_CONVERSATION_ID clk =
     (let (t, w) = Date_now \<lparr>mockConversations = [], sessionIdMap = [], clock = clk, ticks = 0\<rparr>
      in w\<lparr>mockConversations :=
             [(DEFAULT_CONVERSATION_ID,
               [\<lparr>msg_id = ascii ''system-init-'' @ DEFAULT_CONVERSATION_ID,
                 content = demo_greeting_initial,
                 isUser = False, timestamp = t - 3600000, loading = None\<rparr>])]\<rparr>)"


subsection \<open>\<open>onSubmit\<close>\<close>

text \<open>
  The component state that \<open>onSubmit\<close> reads or writes. \<open>activeModule\<close> keeps the
  title of the module only (its icon is a React node), \<open>conversationsItems\<close> the key and
  label of each item. State setters are taken to have taken effect when the next event
  handler runs; the toasts of \<open>message.error\<close> are not modelled.
\<close>

record ui =
  input_content :: jsstring
  conversationsItems :: "(jsstring \<times> jsstring) list"
  activeKey :: jsstring
  isLoading :: bool
  messages :: "message list"
  isNewConversation :: bool
  activeModule :: "jsstring option"
  showSessionAnalysisInput :: bool
  nodeData :: "jsstring list"

text \<open>The state of the component when it is mounted (the arguments of \<open>useState\<close>).\<close>

definition initial_ui :: "jsstring \<Rightarrow> ui" where
  "initial_ui DEFAULT_CONVERSATION_ID =
     \<lparr>input_content = [],
      conversationsItems = [(DEFAULT_CONVERSATION_ID, ascii ''Native AI'')],
      activeKey = DEFAULT_CONVERSATION_ID, isLoading = False, messages = [],
      isNewConversation = True, activeModule = None, showSessionAnalysisInput = False,
      nodeData = []\<rparr>"

text \<open>What the suspended handler keeps in its closure.\<close>

record pending =
  nextContent :: jsstring
  userMessageId :: jsstring
  loadingMessageId :: jsstring
  pending_activeKey :: jsstring
  pending_activeModule :: "jsstring option"
  pending_conversationsItems :: "(jsstring \<times> jsstring) list"

definition module_order_analysis :: jsstring where
  "module_order_analysis = [35746, 21333, 20998, 26512]"

definition module_coupons :: jsstring where
  "module_coupons = [20248, 24800, 21048, 31649, 29702]"

text \<open>
  \<open>onSubmit\<close> up to the point where \<open>apiSendMessage\<close> calls \<open>fetch\<close>. The result
  \<open>None\<close> is one of the two early returns; otherwise it holds the closure and what
  \<open>apiSendMessage\<close> did (every branch of the \<open>switch\<close> makes the same call).
\<close>

definition onSubmit_begin ::
  "jsstring \<Rightarrow> nat \<Rightarrow> ui \<times> world \<Rightarrow> (pending \<times> (thrown + request)) option \<times> ui \<times> world" where
  "onSubmit_begin text rnd s =
     (case s of (u, w) \<Rightarrow>
        if trim text = [] then (None, u, w)
        else if isLoading u then (None, u, w)
        else
          (let u1 = (if isNewConversation u then u\<lparr>isNewConversation := False\<rparr> else u);
               (t1, w1) = Date_now w;
               uid = ascii ''user-'' @ show_int t1;
               (t2, w2) = Date_now w1;
               userMessage =
                 \<lparr>msg_id = uid, content = text, isUser = True, timestamp = t2, loading = None\<rparr>;
               u2 = u1\<lparr>messages := messages u1 @ [userMessage]\<rparr>;
               u3 = u2\<lparr>input_content := []\<rparr>;
               (t3, w3) = Date_now w2;
               lid = ascii ''system-'' @ show_int t3 @ ascii ''-loading'';
               (t4, w4) = Date_now w3;
               u4 = u3\<lparr>messages := messages u3 @
                      [\<lparr>msg_id = lid, content = [], isUser = False, timestamp = t4,
                        loading = Some True\<rparr>]\<rparr>;
               u5 = u4\<lparr>isLoading := True\<rparr>;
               (r, w5) = apiSendMessage_try_send text (activeKey u) rnd w4
           in (Some (\<lparr>nextContent = text, userMessageId = uid, loadingMessageId = lid,
                      pending_activeKey = activeKey u, pending_activeModule = activeModule u,
                      pending_conversationsItems = conversationsItems u\<rparr>, r),
               u5, w5)))"

text \<open>The updater of \<open>setMessages\<close> after the reply: its filter reads the clock.\<close>

fun filter_settled :: "pending \<Rightarrow> message list \<Rightarrow> world \<Rightarrow> message list \<times> world" where
  "filter_settled p [] w = ([], w)"
| "filter_settled p (msg # msgs) w =
     (if msg_id msg \<noteq> loadingMessageId p
      then (if isUser msg \<and> content msg = nextContent p
            then (case filter_settled p msgs (snd (Date_now w)) of
                    (rest, w') \<Rightarrow>
                      (if \<not> (fst (Date_now w) - timestamp msg < 3000 \<and> msg_id msg \<noteq> userMessageId p)
                       then msg # rest else rest, w'))
            else (case filter_settled p msgs w of (rest, w') \<Rightarrow> (msg # rest, w')))
      else filter_settled p msgs w)"

text \<open>
  \<open>onSubmit\<close> after \<open>await apiSendMessage(...)\<close>: the rest of \<open>try\<close> when the promise
  is fulfilled, \<open>catch\<close> when it is rejected, and \<open>finally\<close>.
\<close>

definition onSubmit_end :: "pending \<Rightarrow> thrown + chat_response \<Rightarrow> ui \<times> world \<Rightarrow> ui \<times> world" where
  "onSubmit_end p result s =
     (case s of (u, w) \<Rightarrow>
        (case result of
           Inl e \<Rightarrow>
             (u\<lparr>messages := filter (\<lambda>msg. msg_id msg \<noteq> loadingMessageId p) (messages u),
                isLoading := False\<rparr>, w)
         | Inr response \<Rightarrow>
             (let u1 =
                (case pending_activeModule p of
                   None \<Rightarrow> u
                 | Some module \<Rightarrow>
                     if module = module_order_analysis then u\<lparr>showSessionAnalysisInput := False\<rparr>
                     else if module = module_coupons then
                       (case map_of (metadata response) ''node'' of
                          Some (Some n) \<Rightarrow> if n \<noteq> [] then u\<lparr>nodeData := nodeData u @ [n]\<rparr> else u
                        | Some None \<Rightarrow> u
                        | None \<Rightarrow> u)
                     else u);
                  (filteredMessages, w1) = filter_settled p (messages u1) w;
                  fresh = (let (t, w') = Date_now w1 in (ascii ''system-'' @ show_int t, w'));
                  (mid, w2) =
                    (case map_of (metadata response) ''message_id'' of
                       Some (Some m) \<Rightarrow> if m \<noteq> [] then (m, w1) else fresh
                     | Some None \<Rightarrow> fresh
                     | None \<Rightarrow> fresh);
                  (t2, w3) = Date_now w2;
                  u2 = u1\<lparr>messages := filteredMessages @
                         [\<lparr>msg_id = mid, content = reply response, isUser = False,
                           timestamp = t2, loading = None\<rparr>]\<rparr>;
                  u3 =
                    (case map_of (mockConversations w3) (pending_activeKey p) of
                       None \<Rightarrow> u2
                     | Some stored \<Rightarrow>
                         u2\<lparr>conversationsItems :=
                              map (\<lambda>item. if fst item = pending_activeKey p
                                           then (fst item, getTitleFromMessages stored (pending_activeKey p))
                                           else item)
                                (pending_conversationsItems p)\<rparr>)
              in (u3\<lparr>isLoading := False\<rparr>, w3))))"

text \<open>One submit run to its end with nothing else in between.\<close>

definition onSubmit :: "jsstring \<Rightarrow> nat \<Rightarrow> fetch_outcome \<Rightarrow> ui \<times> world \<Rightarrow> ui \<times> world" where
  "onSubmit text rnd outcome s =
     (case onSubmit_begin text rnd s of
        (None, u1, w1) \<Rightarrow> (u1, w1)
      | (Some (p, Inl e), u1, w1) \<Rightarrow>
          (case catch_error (pending_activeKey p) e w1 of (r, w2) \<Rightarrow> onSubmit_end p r (u1, w2))
      | (Some (p, Inr req), u1, w1) \<Rightarrow>
          (case resume (pending_activeKey p) (sent_session req) outcome w1 of
             (r, w2) \<Rightarrow> onSubmit_end p r (u1, w2)))"

section \<open>Vocabulary of the properties\<close>


text \<open>A successful answer of the server that names no session.\<close>

definition reply_ok :: "jsstring \<Rightarrow> fetch_outcome" where
  "reply_ok r = Response 200 (Json_data \<lparr>data_reply = r, data_session_id = None\<rparr>)"

text \<open>Two clocks for concrete runs: one that stays within a millisecond, one that advances.\<close>

definition frozen_clock :: "int \<Rightarrow> nat \<Rightarrow> int" where
  "frozen_clock t n = t"

definition running_clock :: "int \<Rightarrow> nat \<Rightarrow> int" where
  "running_clock t n = t + int n"



section \<open>Basic facts about the store and the senders\<close>

lemma ensure_conversation_eq:
  "ensure_conversation c w =
     w\<lparr>mockConversations := AList.update c (getConversationHistory c w) (mockConversations w)\<rparr>"
  by (simp add: ensure_conversation_def getConversationHistory_def update_triv split: option.splits)



lemma resolve_session_frame:
  "mockConversations (snd (resolve_session c rnd w)) = mockConversations w"
  "clock (snd (resolve_session c rnd w)) = clock w"
  "ticks w \<le> ticks (snd (resolve_session c rnd w))"
  by (simp_all add: resolve_session_def Date_now_def Let_def split: option.splits)

lemma resolve_session_binding:
  "map_of (sessionIdMap (snd (resolve_session c rnd w))) c = Some (fst (resolve_session c rnd w))"
  "fst (resolve_session c rnd w) \<noteq> []"
  by (simp_all add: resolve_session_def Date_now_def Let_def update_conv' ascii_def split: option.splits)

lemma some_duplicate_frame:
  "\<exists>k. snd (some_duplicate m ms w) = w\<lparr>ticks := ticks w + k\<rparr>"
proof (induction ms arbitrary: w)
  case Nil
  have "w = w\<lparr>ticks := ticks w + 0\<rparr>" by simp
  then show ?case by (metis some_duplicate.simps(1) snd_conv)
next
  case (Cons x xs)
  show ?case
  proof (cases "isUser x \<and> content x = m")
    case False
    then show ?thesis using Cons.IH [of w] by auto
  next
    case True
    show ?thesis
    proof (cases "fst (Date_now w) - timestamp x < 5000")
      case True
      have "snd (Date_now w) = w\<lparr>ticks := ticks w + 1\<rparr>" by (simp add: Date_now_def)
      with True \<open>isUser x \<and> content x = m\<close> show ?thesis by (metis some_duplicate.simps(2) snd_conv)
    next
      case False
      from Cons.IH [of "snd (Date_now w)"] obtain k where
        k: "snd (some_duplicate m xs (snd (Date_now w))) = (snd (Date_now w))\<lparr>ticks := ticks (snd (Date_now w)) + k\<rparr>"
        by blast
      have "snd (some_duplicate m (x # xs) w) = w\<lparr>ticks := ticks w + (Suc k)\<rparr>"
        using False True k by (simp add: Date_now_def)
      then show ?thesis by blast
    qed
  qed
qed


lemma some_duplicate_frame':
  "mockConversations (snd (some_duplicate m ms w)) = mockConversations w"
  "sessionIdMap (snd (some_duplicate m ms w)) = sessionIdMap w"
  "clock (snd (some_duplicate m ms w)) = clock w"
  "ticks w \<le> ticks (snd (some_duplicate m ms w))"
  using some_duplicate_frame [of m ms w] by auto

lemma apiSendMessage_try_send_eq:
  "apiSendMessage_try_send m c rnd w =
     (let u = \<lparr>msg_id = ascii ''user-'' @ show_int (clock w (ticks w)), content = m,
               isUser = True, timestamp = clock w (Suc (ticks w)), loading = None\<rparr>;
          w3 = w\<lparr>mockConversations :=
                   AList.update c (getConversationHistory c w) (mockConversations w),
                 ticks := Suc (Suc (ticks w))\<rparr>;
          dup = fst (some_duplicate m (getConversationHistory c w) w3);
          w4 = snd (some_duplicate m (getConversationHistory c w) w3);
          w5 = (if dup then w4
                else w4\<lparr>mockConversations :=
                       AList.update c (getConversationHistory c w @ [u]) (mockConversations w4)\<rparr>);
          s = fst (resolve_session c rnd w5);
          w6 = snd (resolve_session c rnd w5)
      in (Inr \<lparr>url = demo_API_URL, authorization = None,
               trace_id = ascii ''trace-'' @ show_int (clock w6 (ticks w6)),
               body = [(''question'', m), (''session_id'', s), (''user_id'', ascii ''huyida-test'')]\<rparr>,
          w6\<lparr>ticks := Suc (ticks w6)\<rparr>))"
  by (simp add: apiSendMessage_try_send_def ensure_conversation_eq Date_now_def push_def Let_def
      update_conv' split_beta some_duplicate_frame')








lemma sendMessage_try_send_eq:
  "sendMessage_try_send m c rnd w =
     (let u = \<lparr>msg_id = ascii ''user-'' @ show_int (clock w (ticks w)), content = m,
               isUser = True, timestamp = clock w (Suc (ticks w)), loading = None\<rparr>;
          w4 = w\<lparr>ticks := Suc (Suc (ticks w)),
                 mockConversations :=
                   AList.update c (getConversationHistory c w @ [u]) (mockConversations w)\<rparr>;
          s = fst (resolve_session c rnd w4);
          w5 = snd (resolve_session c rnd w4)
      in (Inr \<lparr>url = API_URL, authorization = Some (ascii ''Bearer '' @ API_TOKEN),
               trace_id = ascii ''trace-'' @ show_int (clock w5 (ticks w5)),
               body = [(''content'', m), (''session_id'', s), (''user_id'', ascii ''huyida-test'')]\<rparr>,
          w5\<lparr>ticks := Suc (ticks w5)\<rparr>))"
  by (simp add: sendMessage_try_send_def ensure_conversation_eq Date_now_def push_def Let_def
      update_conv' split_beta)

lemma sendMessage_try_send_props:
  "\<exists>req w1 u. sendMessage_try_send m c rnd w = (Inr req, w1)
     \<and> mockConversations w1 = AList.update c (getConversationHistory c w @ [u]) (mockConversations w)
     \<and> isUser u \<and> content u = m
     \<and> msg_id u = ascii ''user-'' @ show_int (clock w (ticks w))
     \<and> timestamp u = clock w (Suc (ticks w))
     \<and> clock w1 = clock w \<and> ticks w \<le> ticks w1
     \<and> map_of (sessionIdMap w1) c = Some (sent_session req) \<and> sent_session req \<noteq> []
     \<and> map_of (body req) ''session_id'' = Some (sent_session req)"
  using resolve_session_frame(3) [of "w\<lparr>ticks := Suc (Suc (ticks w)),
                 mockConversations :=
                   AList.update c (getConversationHistory c w @ [\<lparr>msg_id = ascii ''user-'' @ show_int (clock w (ticks w)), content = m,
               isUser = True, timestamp = clock w (Suc (ticks w)), loading = None\<rparr>]) (mockConversations w)\<rparr>" c rnd]
  by (fastforce simp add: sendMessage_try_send_eq Let_def resolve_session_frame resolve_session_binding sent_session_def)


lemma apiSendMessage_try_send_props:
  "\<exists>req w1 us. apiSendMessage_try_send m c rnd w = (Inr req, w1)
     \<and> mockConversations w1 = AList.update c (getConversationHistory c w @ us) (mockConversations w)
     \<and> us = (if fst (some_duplicate m (getConversationHistory c w)
                       (w\<lparr>mockConversations :=
                            AList.update c (getConversationHistory c w) (mockConversations w),
                          ticks := Suc (Suc (ticks w))\<rparr>))
             then []
             else [\<lparr>msg_id = ascii ''user-'' @ show_int (clock w (ticks w)), content = m,
                    isUser = True, timestamp = clock w (Suc (ticks w)), loading = None\<rparr>])
     \<and> clock w1 = clock w \<and> ticks w \<le> ticks w1
     \<and> map_of (sessionIdMap w1) c = Some (sent_session req) \<and> sent_session req \<noteq> []
     \<and> map_of (body req) ''session_id'' = Some (sent_session req)"
proof -
  define w3 where "w3 = w\<lparr>mockConversations :=
                            AList.update c (getConversationHistory c w) (mockConversations w),
                          ticks := Suc (Suc (ticks w))\<rparr>"
  define u where "u = \<lparr>msg_id = ascii ''user-'' @ show_int (clock w (ticks w)), content = m,
                    isUser = True, timestamp = clock w (Suc (ticks w)), loading = None\<rparr>"
  define w4 where "w4 = snd (some_duplicate m (getConversationHistory c w) w3)"
  define w5 where "w5 = (if fst (some_duplicate m (getConversationHistory c w) w3) then w4
                else w4\<lparr>mockConversations :=
                       AList.update c (getConversationHistory c w @ [u]) (mockConversations w4)\<rparr>)"
  have t4: "ticks w \<le> ticks w4" "clock w4 = clock w"
    "mockConversations w4 = AList.update c (getConversationHistory c w) (mockConversations w)"
    using some_duplicate_frame'(4) [of w3 m "getConversationHistory c w"]
    by (simp_all add: w4_def w3_def some_duplicate_frame')
  then have t5: "ticks w \<le> ticks w5" "clock w5 = clock w"
    "mockConversations w5 = AList.update c
        (getConversationHistory c w @ (if fst (some_duplicate m (getConversationHistory c w) w3) then [] else [u]))
        (mockConversations w)"
    by (simp_all add: w5_def)
  have t6: "ticks w \<le> ticks (snd (resolve_session c rnd w5))"
    using resolve_session_frame(3) [of w5 c rnd] t5(1) by simp
  have eq: "apiSendMessage_try_send m c rnd w =
     (Inr \<lparr>url = demo_API_URL, authorization = None,
               trace_id = ascii ''trace-'' @ show_int (clock (snd (resolve_session c rnd w5)) (ticks (snd (resolve_session c rnd w5)))),
               body = [(''question'', m), (''session_id'', fst (resolve_session c rnd w5)), (''user_id'', ascii ''huyida-test'')]\<rparr>,
          (snd (resolve_session c rnd w5))\<lparr>ticks := Suc (ticks (snd (resolve_session c rnd w5)))\<rparr>)"
    unfolding apiSendMessage_try_send_eq w5_def w4_def w3_def u_def Let_def by simp
  show ?thesis
    unfolding eq using t5 t6
    by (simp add: resolve_session_frame resolve_session_binding sent_session_def w3_def u_def)
qed



lemma getConversationHistory_stored:
  "mockConversations w' = AList.update c ms (mockConversations w) \<Longrightarrow>
   getConversationHistory k w' = (if k = c then ms else getConversationHistory k w)"
  by (simp add: getConversationHistory_def update_conv')










lemma initial_history:
  "getConversationHistory (ascii ''1'') (initial_world clk) =
     [\<lparr>msg_id = ascii ''system-init-1'', content = greeting_initial, isUser = False,
       timestamp = clk 0 - 3600000, loading = None\<rparr>]"
  "getConversationHistory k (demo_initial_world k clk) =
     [\<lparr>msg_id = ascii ''system-init-'' @ k, content = demo_greeting_initial, isUser = False,
       timestamp = clk 0 - 3600000, loading = None\<rparr>]"
  by (simp_all add: getConversationHistory_def initial_world_def demo_initial_world_def Date_now_def)

lemma initial_clock:
  "clock (initial_world clk) = clk" "clock (demo_initial_world k clk) = clk"
  "ticks (initial_world clk) = 1" "ticks (demo_initial_world k clk) = 1"
  by (simp_all add: initial_world_def demo_initial_world_def Date_now_def)






text \<open>
  A call that resumes after \<open>deleteConversation\<close> has removed its conversation finds
  \<open>undefined\<close> in both \<open>push\<close> calls, so its promise is rejected. The api module
  never calls \<open>deleteConversation\<close> itself.
\<close>

lemma resume_absent_rejects:
  "map_of (mockConversations w) c = None \<Longrightarrow> \<exists>e. fst (resume c sid outcome w) = Inl e"
  by (simp add: resume_def try_receive_def catch_error_def push_def Date_now_def Let_def
      split: fetch_outcome.splits json_outcome.splits option.splits)









lemma show_int_1000: "show_int 1000 = ascii ''1000''"
  by (simp add: show_int_def ascii_def show_nat.simps [of 1000] show_nat.simps [of 100]
      show_nat.simps [of 10] show_nat.simps [of "Suc 0"])











lemma onSubmit_end_idle: "\<not> isLoading (fst (onSubmit_end p r s))"
  by (cases s)
    (simp add: onSubmit_end_def Let_def split_beta split: sum.splits option.splits)

lemma onSubmit_begin_guard:
  "isLoading u \<Longrightarrow> onSubmit_begin t rnd (u, w) = (None, u, w)"
  by (simp add: onSubmit_begin_def)

lemma onSubmit_begin_issue:
  assumes "\<not> isLoading u" and "trim t \<noteq> []"
  shows "\<exists>p req u' w'. onSubmit_begin t rnd (u, w) = (Some (p, Inr req), u', w')
           \<and> isLoading u' \<and> pending_activeKey p = activeKey u
           \<and> map_of (body req) ''question'' = Some t"
proof -
  define w4 where "w4 = w\<lparr>ticks := Suc (Suc (Suc (Suc (ticks w))))\<rparr>"
  from apiSendMessage_try_send_props [of t "activeKey u" rnd w4] obtain req w5 where
    a: "apiSendMessage_try_send t (activeKey u) rnd w4 = (Inr req, w5)" by blast
  then have "map_of (body req) ''question'' = Some t"
    by (auto simp add: apiSendMessage_try_send_eq Let_def)
  with a assms show ?thesis
    unfolding w4_def by (simp add: onSubmit_begin_def Date_now_def Let_def)
qed

section \<open>Failure of the transport\<close>



section \<open>What a send appends\<close>




section \<open>The guard against duplicate submissions\<close>




section \<open>The session binding\<close>



section \<open>Deleting a conversation\<close>




section \<open>The list of conversations\<close>



section \<open>Stored conversations are never empty\<close>



section \<open>A send while another is in flight\<close>

text \<open>
  Claim C5, as amended. The rejection of a send while another is awaited is done by the
  submit handler \<open>onSubmit\<close> of demo.tsx with the component's \<open>isLoading\<close> flag:
  while the flag is set, \<open>onSubmit\<close> returns at once, leaves the component state, the
  stored histories and the session bindings unchanged and issues no request. A submit of
  non-blank text while the flag is clear sets the flag and issues the request, and the
  flag is clear again when the submit has run to its end. \<open>sendMessage\<close> and
  \<open>apiSendMessage\<close> themselves have no such check.
\<close>

theorem submit_ignored_while_loading:
  "(isLoading u \<longrightarrow>
      onSubmit_begin t rnd (u, w) = (None, u, w) \<and> onSubmit t rnd outcome (u, w) = (u, w))
   \<and> (\<not> isLoading u \<and> trim t \<noteq> [] \<longrightarrow>
        (\<exists>p req u' w'. onSubmit_begin t rnd (u, w) = (Some (p, Inr req), u', w')
           \<and> isLoading u' \<and> pending_activeKey p = activeKey u
           \<and> map_of (body req) ''question'' = Some t))
   \<and> (\<not> isLoading u \<longrightarrow> \<not> isLoading (fst (onSubmit t rnd outcome (u, w))))"
proof (intro conjI impI)
  assume "isLoading u"
  then show "onSubmit_begin t rnd (u, w) = (None, u, w)" by (rule onSubmit_begin_guard)
  then show "onSubmit t rnd outcome (u, w) = (u, w)" by (simp add: onSubmit_def)
next
  assume "\<not> isLoading u \<and> trim t \<noteq> []"
  then show "\<exists>p req u' w'. onSubmit_begin t rnd (u, w) = (Some (p, Inr req), u', w')
           \<and> isLoading u' \<and> pending_activeKey p = activeKey u
           \<and> map_of (body req) ''question'' = Some t"
    using onSubmit_begin_issue by blast
next
  assume n: "\<not> isLoading u"
  show "\<not> isLoading (fst (onSubmit t rnd outcome (u, w)))"
  proof (cases "trim t = []")
    case True
    with n show ?thesis by (simp add: onSubmit_def onSubmit_begin_def)
  next
    case False
    from onSubmit_begin_issue [OF n False, of rnd w] obtain p req u' w' where
      "onSubmit_begin t rnd (u, w) = (Some (p, Inr req), u', w')" by blast
    then show ?thesis
      by (simp add: onSubmit_def onSubmit_end_idle split: prod.splits)
  qed
qed

theorem submit_ignored_while_loading_witness:
  "onSubmit_begin (ascii ''hi'') 7
       ((initial_ui (ascii ''c1''))\<lparr>isLoading := True\<rparr>, demo_initial_world (ascii ''c1'') (frozen_clock 1000))
     = (None, (initial_ui (ascii ''c1''))\<lparr>isLoading := True\<rparr>,
        demo_initial_world (ascii ''c1'') (frozen_clock 1000))
   \<and> (\<exists>p req u' w'.
         onSubmit_begin (ascii ''hi'') 7
           (initial_ui (ascii ''c1''), demo_initial_world (ascii ''c1'') (frozen_clock 1000))
           = (Some (p, Inr req), u', w')
       \<and> isLoading u' \<and> pending_activeKey p = activeKey (initial_ui (ascii ''c1''))
       \<and> map_of (body req) ''question'' = Some (ascii ''hi''))
   \<and> \<not> isLoading (fst (onSubmit (ascii ''hi'') 7 (reply_ok (ascii ''ok''))
          (initial_ui (ascii ''c1''), demo_initial_world (ascii ''c1'') (frozen_clock 1000))))"
proof -
  have l: "isLoading ((initial_ui (ascii ''c1''))\<lparr>isLoading := True\<rparr>)" by simp
  have i: "\<not> isLoading (initial_ui (ascii ''c1''))" by (simp add: initial_ui_def)
  have t: "trim (ascii ''hi'') \<noteq> []"
    by (simp add: trim_def ascii_def is_white_space_def)
  from submit_ignored_while_loading
    [of "(initial_ui (ascii ''c1''))\<lparr>isLoading := True\<rparr>" "ascii ''hi''" 7
        "demo_initial_world (ascii ''c1'') (frozen_clock 1000)" "reply_ok (ascii ''ok'')"] l
  have 1: "onSubmit_begin (ascii ''hi'') 7
       ((initial_ui (ascii ''c1''))\<lparr>isLoading := True\<rparr>, demo_initial_world (ascii ''c1'') (frozen_clock 1000))
     = (None, (initial_ui (ascii ''c1''))\<lparr>isLoading := True\<rparr>,
        demo_initial_world (ascii ''c1'') (frozen_clock 1000))"
    by blast
  from submit_ignored_while_loading
    [of "initial_ui (ascii ''c1'')" "ascii ''hi''" 7
        "demo_initial_world (ascii ''c1'') (frozen_clock 1000)" "reply_ok (ascii ''ok'')"] i t
  show ?thesis using 1 by blast
qed

text \<open>
  The claim as stated fails for \<open>sendMessage\<close>: a second call on the conversation,
  made while the first call is suspended at its \<open>fetch\<close>, appends its user message to
  the history and issues its own request.
\<close>

theorem second_send_in_flight_not_rejected:
  "let w1 = snd (sendMessage_try_send (ascii ''a'') (ascii ''1'') 7 (initial_world (running_clock 1000)));
       second = sendMessage_try_send (ascii ''b'') (ascii ''1'') 8 w1
   in map content (getConversationHistory (ascii ''1'') w1) = [greeting_initial, ascii ''a'']
      \<and> map content (getConversationHistory (ascii ''1'') (snd second))
          = [greeting_initial, ascii ''a'', ascii ''b'']
      \<and> (\<exists>req. fst second = Inr req \<and> map_of (body req) ''content'' = Some (ascii ''b''))"
proof -
  define c where "c = ascii ''1''"
  define w0 where "w0 = initial_world (running_clock 1000)"
  from sendMessage_try_send_props [of "ascii ''a''" c 7 w0] obtain req1 w1 u1 where
    a1: "sendMessage_try_send (ascii ''a'') c 7 w0 = (Inr req1, w1)"
    and h1: "mockConversations w1 = AList.update c (getConversationHistory c w0 @ [u1]) (mockConversations w0)"
    and u1: "content u1 = ascii ''a''"
    by blast
  from sendMessage_try_send_props [of "ascii ''b''" c 8 w1] obtain req2 w2 u2 where
    a2: "sendMessage_try_send (ascii ''b'') c 8 w1 = (Inr req2, w2)"
    and h2: "mockConversations w2 = AList.update c (getConversationHistory c w1 @ [u2]) (mockConversations w1)"
    and u2: "content u2 = ascii ''b''"
    by blast
  have g1: "getConversationHistory c w1 = getConversationHistory c w0 @ [u1]"
    using getConversationHistory_stored [OF h1, of c] by simp
  have g2: "getConversationHistory c w2 = getConversationHistory c w0 @ [u1, u2]"
    using getConversationHistory_stored [OF h2, of c] g1 by simp
  have b: "map_of (body req2) ''content'' = Some (ascii ''b'')"
    using a2 by (auto simp add: sendMessage_try_send_eq Let_def)
  show ?thesis
    using a1 a2 u1 u2 b
    by (simp add: Let_def c_def [symmetric] w0_def [symmetric] g1 g2)
      (simp add: w0_def c_def initial_history)
qed

section \<open>The history and its rendered view\<close>




section \<open>Message identifiers\<close>

text \<open>
  Claim C9 says that no two messages of a conversation have the same identifier, also
  when they are created within one millisecond. The identifiers are built from the clock
  reading alone. Two calls of \<open>sendMessage\<close> on the conversation \<open>1\<close>, the second
  started while the first awaits its \<open>fetch\<close> and within the same millisecond, reach a
  state in which the messages \<open>a\<close> and \<open>b\<close> both have the identifier \<open>user-1000\<close>.
\<close>

theorem same_millisecond_same_identifier:
  "let w1 = snd (sendMessage_try_send (ascii ''a'') (ascii ''1'') 7 (initial_world (frozen_clock 1000)));
       w2 = snd (sendMessage_try_send (ascii ''b'') (ascii ''1'') 8 w1)
   in reachable w2
      \<and> map msg_id (getConversationHistory (ascii ''1'') w2)
          = [ascii ''system-init-1'', ascii ''user-1000'', ascii ''user-1000'']
      \<and> map content (getConversationHistory (ascii ''1'') w2)
          = [greeting_initial, ascii ''a'', ascii ''b'']"
proof -
  define c where "c = ascii ''1''"
  define w0 where "w0 = initial_world (frozen_clock 1000)"
  from sendMessage_try_send_props [of "ascii ''a''" c 7 w0] obtain req1 w1 u1 where
    a1: "sendMessage_try_send (ascii ''a'') c 7 w0 = (Inr req1, w1)"
    and h1: "mockConversations w1 = AList.update c (getConversationHistory c w0 @ [u1]) (mockConversations w0)"
    and u1: "content u1 = ascii ''a''" "msg_id u1 = ascii ''user-'' @ show_int (clock w0 (ticks w0))"
    and t1: "clock w1 = clock w0"
    by blast
  from sendMessage_try_send_props [of "ascii ''b''" c 8 w1] obtain req2 w2 u2 where
    a2: "sendMessage_try_send (ascii ''b'') c 8 w1 = (Inr req2, w2)"
    and h2: "mockConversations w2 = AList.update c (getConversationHistory c w1 @ [u2]) (mockConversations w1)"
    and u2: "content u2 = ascii ''b''" "msg_id u2 = ascii ''user-'' @ show_int (clock w1 (ticks w1))"
    by blast
  have g: "getConversationHistory c w2 = getConversationHistory c w0 @ [u1, u2]"
    using getConversationHistory_stored [OF h1, of c] getConversationHistory_stored [OF h2, of c]
    by simp
  have "reachable w0" unfolding w0_def by (rule reachable.loaded)
  then have "reachable w1" using a1 by (rule reachable.send)
  then have r: "reachable w2" using a2 by (rule reachable.send)
  have i: "msg_id u1 = ascii ''user-1000''" "msg_id u2 = ascii ''user-1000''"
    using u1 u2 t1 by (simp_all add: w0_def initial_clock frozen_clock_def show_int_1000 ascii_def)
  show ?thesis
    using a1 a2 r i u1(1) u2(1)
    by (simp add: Let_def c_def [symmetric] w0_def [symmetric] g)
      (simp add: w0_def c_def initial_history)
qed

end
